theory Spec2Isabelle
  imports Main
begin

section \<open>JavaScript values\<close>

text \<open>
  The scripts exchange plain JavaScript values: the parsed \<^verbatim>\<open>config/settings.json\<close>, the
  \<^verbatim>\<open>data\<close> of a message event, the requests sent over \<^verbatim>\<open>chrome.runtime\<close>, the
  items of \<^verbatim>\<open>chrome.storage.local\<close>. A value is modelled by \<open>jsval\<close>. Numbers are
  integers (the clock's milliseconds and the whole numbers of the configuration); fractions,
  \<^verbatim>\<open>NaN\<close> and the infinities are outside the model. An object is the list of its own
  properties, each key once. Two values are compared by \<^verbatim>\<open>===\<close> only where both are
  primitives, so that \<^verbatim>\<open>===\<close> is equality of \<open>jsval\<close>.
\<close>

datatype jsval =
    JUndef
  | JNull
  | JBool bool
  | JNum int
  | JStr string
  | JArr "jsval list"
  | JObj "(string \<times> jsval) list"

text \<open>Truthiness, as \<^verbatim>\<open>if (v)\<close>, \<^verbatim>\<open>!v\<close>, \<^verbatim>\<open>a && b\<close> and \<^verbatim>\<open>a || b\<close> test it.\<close>

fun truthy :: "jsval \<Rightarrow> bool" where
  "truthy JUndef = False"
| "truthy JNull = False"
| "truthy (JBool b) = b"
| "truthy (JNum n) = (n \<noteq> 0)"
| "truthy (JStr s) = (s \<noteq> [])"
| "truthy (JArr xs) = True"
| "truthy (JObj kvs) = True"

text \<open>\<^verbatim>\<open>typeof v === 'object'\<close>: objects, arrays, and also \<^verbatim>\<open>null\<close>.\<close>

fun is_object :: "jsval \<Rightarrow> bool" where
  "is_object JNull = True"
| "is_object (JArr xs) = True"
| "is_object (JObj kvs) = True"
| "is_object v = False"

text \<open>
  \<^verbatim>\<open>key in value\<close> and \<^verbatim>\<open>value[key]\<close> / \<^verbatim>\<open>value.key\<close> for the keys the scripts use, none of
  which is an array index or a property inherited from a prototype: only an object's own
  properties answer. Reading a property that is not there gives \<^verbatim>\<open>undefined\<close>.
\<close>

fun has_key :: "jsval \<Rightarrow> string \<Rightarrow> bool" where
  "has_key (JObj kvs) k = (map_of kvs k \<noteq> None)"
| "has_key v k = False"

fun get_prop :: "jsval \<Rightarrow> string \<Rightarrow> jsval" where
  "get_prop (JObj kvs) k = (case map_of kvs k of Some v \<Rightarrow> v | None \<Rightarrow> JUndef)"
| "get_prop v k = JUndef"

text \<open>\<^verbatim>\<open>a || b\<close> on values.\<close>

definition js_or :: "jsval \<Rightarrow> jsval \<Rightarrow> jsval" where
  "js_or a b = (if truthy a then a else b)"

text \<open>Decimal digits of a number, for \<^verbatim>\<open>'tab-' + Date.now()\<close> and for a number used as a string.\<close>

fun show_nat :: "nat \<Rightarrow> string" where
  "show_nat n =
     (if n < 10 then [''0123456789'' ! n]
      else show_nat (n div 10) @ [''0123456789'' ! (n mod 10)])"

declare show_nat.simps [simp del]

definition show_int :: "int \<Rightarrow> string" where
  "show_int i = (if i < 0 then CHR ''-'' # show_nat (nat (- i)) else show_nat (nat i))"

fun join_comma :: "string list \<Rightarrow> string" where
  "join_comma [] = []"
| "join_comma [s] = s"
| "join_comma (s # t # ss) = s @ '','' @ join_comma (t # ss)"

text \<open>
  The string a value turns into where the platform wants a string (a selector, a property
  name, an event type): \<^verbatim>\<open>String(v)\<close>.
\<close>

fun js_to_string :: "jsval \<Rightarrow> string" where
  "js_to_string JUndef = ''undefined''"
| "js_to_string JNull = ''null''"
| "js_to_string (JBool b) = (if b then ''true'' else ''false'')"
| "js_to_string (JNum n) = show_int n"
| "js_to_string (JStr s) = s"
| "js_to_string (JArr xs) =
     join_comma (map (\<lambda>x. if x = JUndef \<or> x = JNull then [] else js_to_string x) xs)"
| "js_to_string (JObj kvs) = ''[object Object]''"

text \<open>
  \<^verbatim>\<open>Number(v)\<close>, \<open>None\<close> standing for \<^verbatim>\<open>NaN\<close>. What the engine makes of a value
  that is not a number is the parameter \<open>coerce\<close>.
\<close>

definition js_number :: "(jsval \<Rightarrow> int option) \<Rightarrow> jsval \<Rightarrow> int option" where
  "js_number coerce v = (case v of JNum n \<Rightarrow> Some n | _ \<Rightarrow> coerce v)"

section \<open>Configuration and the trusted origin (content script)\<close>

text \<open>\<^verbatim>\<open>path.split('.')\<close>.\<close>

fun split_dot :: "string \<Rightarrow> string list" where
  "split_dot [] = [[]]"
| "split_dot (c # cs) =
     (if c = CHR ''.'' then [] # split_dot cs
      else (case split_dot cs of
              [] \<Rightarrow> [[c]]
            | w # ws \<Rightarrow> (c # w) # ws))"

text \<open>The loop of \<^verbatim>\<open>getConfig\<close> over the keys of the path.\<close>

fun walk_keys :: "jsval \<Rightarrow> string list \<Rightarrow> jsval \<Rightarrow> jsval" where
  "walk_keys v [] fallback = v"
| "walk_keys v (k # ks) fallback =
     (if truthy v \<and> is_object v \<and> has_key v k then walk_keys (get_prop v k) ks fallback
      else fallback)"

text \<open>
  \<^verbatim>\<open>getConfig(path, fallback = null)\<close>. The module variable \<^verbatim>\<open>extensionConfig\<close> is the first
  argument: \<open>JNull\<close> from the start of the script until \<^verbatim>\<open>loadExtensionConfig\<close> has
  assigned it.
\<close>

definition getConfig :: "jsval \<Rightarrow> string \<Rightarrow> jsval \<Rightarrow> jsval" where
  "getConfig extensionConfig path fallback =
     (if \<not> truthy extensionConfig then fallback
      else walk_keys extensionConfig (split_dot path) fallback)"

text \<open>
  \<^verbatim>\<open>getTrustedOrigin\<close>. The browser's \<^verbatim>\<open>new URL(v).origin\<close> is the parameter
  \<open>url_origin\<close>: \<open>None\<close> where the constructor throws, which the \<^verbatim>\<open>catch\<close> turns into
  the empty string.
\<close>

definition getTrustedOrigin :: "(jsval \<Rightarrow> string option) \<Rightarrow> jsval \<Rightarrow> string" where
  "getTrustedOrigin url_origin extensionConfig =
     (case url_origin (getConfig extensionConfig ''sidebar.iframeSrc'' JNull) of
        Some origin \<Rightarrow> origin
      | None \<Rightarrow> [])"


text \<open>
  \<^verbatim>\<open>let extensionConfig = null\<close>, and what \<^verbatim>\<open>loadExtensionConfig\<close> assigns once its
  \<^verbatim>\<open>await\<close>s are over: the parsed file, or the built-in defaults when the fetch or the
  parse failed (\<open>None\<close>).
\<close>

definition initial_extensionConfig :: jsval where
  "initial_extensionConfig = JNull"

definition default_config :: jsval where
  "default_config =
     JObj [(''sidebar'', JObj
              [(''title'', JStr ''Codelution Assistant''),
               (''iframeSrc'', JStr ''https://add-functions-codelution_chrome_extension.toddle.site/''),
               (''defaultWidth'', JStr ''400px''),
               (''mobileWidthPercent'', JNum 85)]),
           (''styling'', JObj
              [(''primaryColor'', JStr ''#1976d2''),
               (''primaryColorHover'', JStr ''#1565c0''),
               (''backgroundColor'', JStr ''#fff''),
               (''textColor'', JStr ''#333''),
               (''shadowColor'', JStr ''rgba(0,0,0,0.25)'')]),
           (''button'', JObj
              [(''tooltip'', JStr ''Open Codelution Assistant''),
               (''size'', JObj [(''desktop'', JStr ''50px''), (''mobile'', JStr ''44px'')]),
               (''position'', JObj [(''desktop'', JStr ''20px''), (''mobile'', JStr ''10px'')])]),
           (''behavior'', JObj
              [(''autoRestoreTimeMinutes'', JNum 5),
               (''enableResize'', JBool True),
               (''enableMobileOptimization'', JBool True),
               (''minWidth'', JNum 250),
               (''maxWidthPercent'', JNum 90)])]"

definition loadExtensionConfig :: "jsval option \<Rightarrow> jsval" where
  "loadExtensionConfig fetched = (case fetched of Some json \<Rightarrow> json | None \<Rightarrow> default_config)"

section \<open>The window message listeners\<close>

record message_event =
  ev_origin :: string
  ev_data :: jsval

text \<open>
  A message that a window posts with \<^verbatim>\<open>postMessage\<close> arrives with the serialisation of the
  sender's origin as its \<^verbatim>\<open>origin\<close>: \<^verbatim>\<open>null\<close> for an opaque origin, else the scheme, the
  host and the port when it is not the default one. (An event that a script constructs
  itself carries the origin the script gives it, the empty string by default.)
\<close>

datatype sender_origin = OpaqueOrigin | TupleOrigin string string "nat option"

fun serialize_origin :: "sender_origin \<Rightarrow> string" where
  "serialize_origin OpaqueOrigin = ''null''"
| "serialize_origin (TupleOrigin scheme host port) =
     scheme @ ''://'' @ host @ (case port of None \<Rightarrow> [] | Some p \<Rightarrow> CHR '':'' # show_nat p)"

definition posted_message :: "sender_origin \<Rightarrow> jsval \<Rightarrow> message_event" where
  "posted_message sender d = \<lparr>ev_origin = serialize_origin sender, ev_data = d\<rparr>"

text \<open>What the content script's listener does with a message: the handler it calls.\<close>

datatype handler_call =
    CallInjectWebComponent jsval
  | CallDomManipulation jsval jsval jsval
  | CallDomObserver jsval jsval jsval jsval
  | CallGetDomInfo jsval jsval jsval
  | SendTabInfo

text \<open>
  The listener of the content script (\<^verbatim>\<open>window.addEventListener('message', ...)\<close>);
  \<open>None\<close> when it returns without calling anything.
\<close>

definition content_message_listener ::
    "(jsval \<Rightarrow> string option) \<Rightarrow> jsval \<Rightarrow> message_event \<Rightarrow> handler_call option" where
  "content_message_listener url_origin extensionConfig ev =
     (let d = ev_data ev in
      if \<not> truthy d \<or> \<not> is_object d then None
      else if ev_origin ev \<noteq> getTrustedOrigin url_origin extensionConfig then None
      else
        (let type = get_prop d ''type'' in
         if type = JStr ''injectWebComponent'' then
           Some (CallInjectWebComponent (JObj
             [(''type'', JStr ''manipulateDom''),
              (''action'', JStr ''injectWebComponent''),
              (''selector'', get_prop d ''selector''),
              (''src'', get_prop d ''src''),
              (''name'', get_prop d ''name''),
              (''placement'', get_prop d ''placement'')]))
         else if type = JStr ''manipulate-dom'' then
           Some (CallDomManipulation (get_prop d ''selector'') (get_prop d ''action'')
                   (get_prop d ''value''))
         else if type = JStr ''start-dom-observer'' \<or> type = JStr ''observe-dom-value'' then
           Some (CallDomObserver (get_prop d ''selector'') (get_prop d ''attribute'')
                   (get_prop d ''eventType'') (get_prop d ''watchId''))
         else if type = JStr ''get-dom-info'' then
           Some (CallGetDomInfo (get_prop d ''selector'') (get_prop d ''attribute'')
                   (get_prop d ''requestId''))
         else if type = JStr ''get-tab-info'' then Some SendTabInfo
         else None))"

text \<open>
  The sidebar script registers six listeners on its window, one per message type. Each tests
  \<^verbatim>\<open>event.data && event.data.type === ...\<close> and nothing else, then asks for the active tab
  and sends it a request (\<open>TabsSend\<close>); the one for \<^verbatim>\<open>get-dom-info\<close> passes a callback that
  posts the answer with the \<^verbatim>\<open>requestId\<close> it kept (\<open>TabsSendReply\<close>), the one for
  \<^verbatim>\<open>get-tab-info\<close> posts the tab's data to the frame of the sidebar page, when it has one
  (\<open>PostTabInfo\<close>). \<open>has_tab\<close> says whether \<^verbatim>\<open>tabs[0]\<close> is there.
\<close>

datatype sidebar_effect =
    TabsSend jsval
  | TabsSendReply jsval jsval
  | PostTabInfo

definition sidebar_message_listeners :: "bool \<Rightarrow> message_event \<Rightarrow> sidebar_effect list" where
  "sidebar_message_listeners has_tab ev =
     (let d = ev_data ev; type = get_prop d ''type'' in
      if \<not> truthy d \<or> \<not> has_tab then []
      else if type = JStr ''manipulate-dom'' then
        [TabsSend (JObj
           [(''type'', JStr ''manipulateDom''),
            (''selector'', get_prop d ''selector''),
            (''action'', get_prop d ''action''),
            (''value'', get_prop d ''value'')])]
      else if type = JStr ''injectWebComponent'' then
        [TabsSend (JObj
           [(''type'', JStr ''manipulateDom''),
            (''action'', JStr ''injectWebComponent''),
            (''selector'', get_prop d ''selector''),
            (''src'', get_prop d ''src''),
            (''name'', get_prop d ''name''),
            (''placement'', get_prop d ''placement'')])]
      else if type = JStr ''get-tab-info'' then [PostTabInfo]
      else if type = JStr ''start-dom-observer'' then
        [TabsSend (JObj
           [(''type'', JStr ''manipulateDom''),
            (''action'', JStr ''observeDomValue''),
            (''selector'', get_prop d ''selector''),
            (''attribute'', get_prop d ''attribute''),
            (''eventType'', get_prop d ''eventType''),
            (''watchId'', get_prop d ''watchId'')])]
      else if type = JStr ''get-dom-info'' then
        [TabsSendReply (JObj
           [(''type'', JStr ''manipulateDom''),
            (''action'', JStr ''getDomInfo''),
            (''selector'', get_prop d ''selector''),
            (''attribute'', get_prop d ''attribute'')])
           (get_prop d ''requestId'')]
      else if type = JStr ''observe-dom-value'' then
        [TabsSend (JObj
           [(''type'', JStr ''manipulateDom''),
            (''action'', JStr ''observeDomValue''),
            (''selector'', get_prop d ''selector''),
            (''attribute'', get_prop d ''attribute''),
            (''eventType'', get_prop d ''eventType''),
            (''iframeSelector'', get_prop d ''iframeSelector'')])]
      else [])"

text \<open>A stand-in for the browser's URL parser, used to run the definitions on examples.\<close>

definition sample_url_origin :: "jsval \<Rightarrow> string option" where
  "sample_url_origin v =
     (if v = JStr ''https://panel.example/app'' then Some ''https://panel.example'' else None)"

definition sample_config :: jsval where
  "sample_config =
     JObj [(''sidebar'', JObj [(''title'', JStr ''Assistant''),
                               (''iframeSrc'', JStr ''https://panel.example/app'')]),
           (''behavior'', JObj [(''autoRestoreTimeMinutes'', JNum 5)])]"

section \<open>The DOM watch manager\<close>

text \<open>
  The page as the watch handlers see it. \<open>pg_query\<close> is \<^verbatim>\<open>document.querySelector\<close> on the
  selector text: it throws on a selector that does not parse (\<open>Invalid\<close>), finds nothing
  (\<open>NoMatch\<close>) or returns an element, named by a number. An element answers
  \<^verbatim>\<open>attribute in el\<close> / \<^verbatim>\<open>el[attribute]\<close> through \<open>el_props\<close> and
  \<^verbatim>\<open>el.getAttribute(attribute)\<close> through \<open>el_attrs\<close>, and its content changes over time, so
  every handler and every callback is given the page of the moment it runs in. \<open>pg_iframe\<close> is
  the frame \<^verbatim>\<open>document.getElementById('sidebar-container-nordcraft')\<close>, when the document
  has it; a frame that has left the document has no \<^verbatim>\<open>contentWindow\<close>. The values read from
  an element are primitives (see \<open>jsval\<close>).
\<close>

datatype error = SyntaxError | TypeError

datatype query_result = Invalid | NoMatch | Match nat

record element =
  el_props :: "string \<rightharpoonup> jsval"
  el_attrs :: "string \<rightharpoonup> string"

record page =
  pg_query :: "string \<Rightarrow> query_result"
  pg_elems :: "nat \<Rightarrow> element"
  pg_iframe :: "nat option"

text \<open>\<^verbatim>\<open>(attribute in el) ? el[attribute] : el.getAttribute(attribute)\<close>.\<close>

definition read_value :: "element \<Rightarrow> jsval \<Rightarrow> jsval" where
  "read_value el attribute =
     (case el_props el (js_to_string attribute) of
        Some v \<Rightarrow> v
      | None \<Rightarrow> (case el_attrs el (js_to_string attribute) of
                   Some s \<Rightarrow> JStr s
                 | None \<Rightarrow> JNull))"

text \<open>
  What leaves the content script: a \<^verbatim>\<open>postMessage\<close> to the content window of a frame, with
  its target origin, or a \<^verbatim>\<open>chrome.runtime.sendMessage\<close>. The calls are recorded in order;
  what the browser does with a call is outside the model.
\<close>

datatype out_msg =
    IframePost nat string jsval
  | RuntimeSend jsval

text \<open>
  A listener or observer that a registration has installed, with what its closure holds:
  the element, the arguments, \<^verbatim>\<open>lastValue\<close>, and where it reports. \<^verbatim>\<open>handleDomObserver\<close>
  keeps the \<^verbatim>\<open>iframe\<close> it looked up when it was called (\<open>ToIframe\<close>);
  \<^verbatim>\<open>handleManipulateDomRequest\<close> reports over \<^verbatim>\<open>chrome.runtime\<close> (\<open>ToRuntime\<close>).
\<close>

datatype sink = ToIframe "nat option" | ToRuntime

record binding =
  b_elem :: nat
  b_selector :: jsval
  b_attribute :: jsval
  b_eventType :: jsval
  b_watchId :: jsval
  b_lastValue :: jsval
  b_sink :: sink

record watch_state =
  ws_bindings :: "binding list"
  ws_out :: "out_msg list"

definition value_changed_msg :: "jsval \<Rightarrow> jsval \<Rightarrow> jsval \<Rightarrow> jsval \<Rightarrow> jsval" where
  "value_changed_msg selector attribute v watchId =
     JObj [(''type'', JStr ''domValueChanged''),
           (''selector'', selector),
           (''attribute'', attribute),
           (''value'', v),
           (''watchId'', watchId)]"

text \<open>\<^verbatim>\<open>if (iframe && iframe.contentWindow) iframe.contentWindow.postMessage(msg, trustedOrigin)\<close>.\<close>

definition post_to_iframe :: "page \<Rightarrow> nat option \<Rightarrow> string \<Rightarrow> jsval \<Rightarrow> out_msg list" where
  "post_to_iframe pg iframe trustedOrigin msg =
     (case iframe of
        None \<Rightarrow> []
      | Some i \<Rightarrow> if pg_iframe pg = Some i then [IframePost i trustedOrigin msg] else [])"

definition default_eventType :: "jsval \<Rightarrow> jsval \<Rightarrow> jsval" where
  "default_eventType eventType attribute =
     js_or eventType (if attribute = JStr ''value'' then JStr ''input''
                      else JStr ''DOMSubtreeModified'')"


text \<open>
  \<^verbatim>\<open>handleManipulateDomRequest(request)\<close>, as far as the watches go: the branch
  \<^verbatim>\<open>observeDomValue\<close> registers a watch; \<^verbatim>\<open>removeElement\<close> and \<^verbatim>\<open>performDomAction\<close> look the
  selector up and change the page, not the watches; \<^verbatim>\<open>injectWebComponent\<close> is the injector
  below.
\<close>

definition handleManipulateDomRequest :: "page \<Rightarrow> jsval \<Rightarrow> watch_state \<Rightarrow> error + watch_state" where
  "handleManipulateDomRequest pg request st =
     (if get_prop request ''action'' = JStr ''removeElement'' then
        (case pg_query pg (js_to_string (get_prop request ''selector'')) of
           Invalid \<Rightarrow> Inl SyntaxError
         | _ \<Rightarrow> Inr st)
      else if get_prop request ''action'' = JStr ''observeDomValue'' then
        (let selector = get_prop request ''selector'';
             attribute = js_or (get_prop request ''attribute'') (JStr ''innerText'');
             eventType = default_eventType (get_prop request ''eventType'') attribute;
             watchId = get_prop request ''watchId''
         in case pg_query pg (js_to_string selector) of
              Invalid \<Rightarrow> Inl SyntaxError
            | NoMatch \<Rightarrow> Inr st
            | Match el \<Rightarrow>
                (let lastValue = read_value (pg_elems pg el) attribute
                 in Inr \<lparr>ws_bindings = ws_bindings st @
                             [\<lparr>b_elem = el, b_selector = selector, b_attribute = attribute,
                               b_eventType = eventType, b_watchId = watchId,
                               b_lastValue = lastValue, b_sink = ToRuntime\<rparr>],
                          ws_out = ws_out st @
                             [RuntimeSend (value_changed_msg selector attribute lastValue watchId)]\<rparr>))
      else if get_prop request ''action'' = JStr ''injectWebComponent'' then Inr st
      else
        (case pg_query pg (js_to_string (get_prop request ''selector'')) of
           Invalid \<Rightarrow> Inl SyntaxError
         | _ \<Rightarrow> Inr st))"

text \<open>
  The content script's \<^verbatim>\<open>chrome.runtime.onMessage\<close> listener, as far as the watches go: a
  request of type \<^verbatim>\<open>manipulateDom\<close> goes to \<^verbatim>\<open>handleManipulateDomRequest\<close>.
\<close>

definition content_runtime_listener :: "page \<Rightarrow> jsval \<Rightarrow> watch_state \<Rightarrow> error + watch_state" where
  "content_runtime_listener pg request st =
     (if get_prop request ''type'' = JStr ''manipulateDom''
      then handleManipulateDomRequest pg request st
      else Inr st)"

text \<open>
  The callback of a binding (the same body for the event listener and for the mutation
  observer): read the value again, and report it when it is not \<^verbatim>\<open>lastValue\<close>.
\<close>

definition on_fire :: "page \<Rightarrow> string \<Rightarrow> binding \<Rightarrow> binding \<times> out_msg list" where
  "on_fire pg trustedOrigin b =
     (let v = read_value (pg_elems pg (b_elem b)) (b_attribute b)
      in if v \<noteq> b_lastValue b then
           (b\<lparr>b_lastValue := v\<rparr>,
            (case b_sink b of
               ToRuntime \<Rightarrow>
                 [RuntimeSend (value_changed_msg (b_selector b) (b_attribute b) v (b_watchId b))]
             | ToIframe iframe \<Rightarrow>
                 post_to_iframe pg iframe trustedOrigin
                   (value_changed_msg (b_selector b) (b_attribute b) v (b_watchId b))))
         else (b, []))"






text \<open>\<^verbatim>\<open>handleGetDomInfo(selector, attribute, requestId)\<close>: the messages it posts.\<close>

definition handleGetDomInfo ::
    "page \<Rightarrow> string \<Rightarrow> jsval \<Rightarrow> jsval \<Rightarrow> jsval \<Rightarrow> error + out_msg list" where
  "handleGetDomInfo pg trustedOrigin selector attribute requestId =
     (case pg_query pg (js_to_string selector) of
        Invalid \<Rightarrow> Inl SyntaxError
      | r \<Rightarrow>
          (let v = (case r of Match el \<Rightarrow> read_value (pg_elems pg el) attribute | _ \<Rightarrow> JNull)
           in Inr (post_to_iframe pg (pg_iframe pg) trustedOrigin
                     (JObj [(''type'', JStr ''dom-info-result''),
                            (''selector'', selector),
                            (''attribute'', attribute),
                            (''value'', v),
                            (''requestId'', requestId)]))))"

text \<open>
  The sidebar script's \<^verbatim>\<open>chrome.runtime.onMessage\<close> listener that relays
  \<^verbatim>\<open>domValueChanged\<close>: the messages it posts to the frame (target \<^verbatim>\<open>'*'\<close>). \<open>has_iframe\<close>
  says whether the sidebar page has the frame.
\<close>

definition sidebar_relay_value_changed :: "bool \<Rightarrow> jsval \<Rightarrow> jsval list" where
  "sidebar_relay_value_changed has_iframe msg =
     (if get_prop msg ''type'' = JStr ''domValueChanged'' \<and> truthy (get_prop msg ''watchId'') then
        (if has_iframe then
           [JObj [(''type'', JStr ''domValueChanged''),
                  (''selector'', get_prop msg ''selector''),
                  (''attribute'', get_prop msg ''attribute''),
                  (''value'', get_prop msg ''value''),
                  (''watchId'', get_prop msg ''watchId'')]]
         else [])
      else [])"

text \<open>A page with one input field, for running the definitions on examples.\<close>

definition sample_page :: "string \<Rightarrow> nat option \<Rightarrow> page" where
  "sample_page field_value iframe =
     \<lparr>pg_query = (\<lambda>s. if s = ''#price'' then Match 0 else NoMatch),
      pg_elems = (\<lambda>i. \<lparr>el_props = [''value'' \<mapsto> JStr field_value], el_attrs = Map.empty\<rparr>),
      pg_iframe = iframe\<rparr>"

text \<open>Sequencing of handlers that may throw: the first exception ends the run.\<close>

definition and_then :: "error + 'a \<Rightarrow> ('a \<Rightarrow> error + 'b) \<Rightarrow> error + 'b" where
  "and_then r f = (case r of Inl e \<Rightarrow> Inl e | Inr x \<Rightarrow> f x)"

definition no_watches :: watch_state where
  "no_watches = \<lparr>ws_bindings = [], ws_out = []\<rparr>"

text \<open>The values that the \<^verbatim>\<open>domValueChanged\<close> messages of \<open>out\<close> carry.\<close>

fun reported_values :: "out_msg list \<Rightarrow> jsval list" where
  "reported_values [] = []"
| "reported_values (RuntimeSend m # out) = get_prop m ''value'' # reported_values out"
| "reported_values (IframePost i origin m # out) = get_prop m ''value'' # reported_values out"

text \<open>The callback of one binding run once on each page of a list, in turn.\<close>

fun fire_seq :: "string \<Rightarrow> binding \<Rightarrow> page list \<Rightarrow> binding \<times> out_msg list" where
  "fire_seq tr b [] = (b, [])"
| "fire_seq tr b (pg # pgs) =
     (let r = on_fire pg tr b; rs = fire_seq tr (fst r) pgs in (fst rs, snd r @ snd rs))"

text \<open>
  A binding has somewhere to report to on a page: it reports over \<^verbatim>\<open>chrome.runtime\<close>, or
  the frame it kept at registration is still the frame of the document.
\<close>

definition reaches_panel :: "binding \<Rightarrow> page \<Rightarrow> bool" where
  "reaches_panel b pg =
     (case b_sink b of
        ToRuntime \<Rightarrow> True
      | ToIframe iframe \<Rightarrow> iframe \<noteq> None \<and> pg_iframe pg = iframe)"

text \<open>A request of the panel for a watch on the field of \<open>sample_page\<close>.\<close>

definition sample_observe_event :: "string \<Rightarrow> message_event" where
  "sample_observe_event type =
     \<lparr>ev_origin = ''https://panel.example'',
      ev_data = JObj [(''type'', JStr type), (''selector'', JStr ''#price''),
                      (''attribute'', JStr ''value''), (''eventType'', JStr ''input''),
                      (''watchId'', JStr ''w1'')]\<rparr>"

section \<open>The navigation detector\<close>

text \<open>
  \<^verbatim>\<open>currentUrl\<close> is the module variable; \<open>nav_href\<close> is \<^verbatim>\<open>window.location.href\<close>. What
  else a callback reads (the title, the frame, the trusted origin, the clock) is the
  environment of the moment it runs in.
\<close>

record nav_state =
  currentUrl :: string
  nav_href :: string
  nav_sent :: "out_msg list"

record nav_env =
  ne_title :: string
  ne_iframe :: "nat option"
  ne_trusted :: string
  ne_now :: int

text \<open>\<^verbatim>\<open>notifyUrlChange(newUrl, oldUrl)\<close>: the messages it sends.\<close>

definition notifyUrlChange :: "nav_env \<Rightarrow> string \<Rightarrow> string \<Rightarrow> out_msg list" where
  "notifyUrlChange env newUrl oldUrl =
     RuntimeSend (JObj [(''type'', JStr ''NORDCRAFT_ACTION''),
                        (''action'', JStr ''URL_CHANGED''),
                        (''newUrl'', JStr newUrl),
                        (''oldUrl'', JStr oldUrl),
                        (''title'', JStr (ne_title env))])
     # (case ne_iframe env of
          None \<Rightarrow> []
        | Some i \<Rightarrow>
            [IframePost i (ne_trusted env)
               (JObj [(''type'', JStr ''url-changed''),
                      (''data'', JObj [(''newUrl'', JStr newUrl),
                                       (''oldUrl'', JStr oldUrl),
                                       (''title'', JStr (ne_title env)),
                                       (''tabId'', JStr (''tab-'' @ show_int (ne_now env)))])]),
             IframePost i (ne_trusted env)
               (JObj [(''type'', JStr ''tab-info''),
                      (''data'', JObj [(''url'', JStr newUrl),
                                       (''title'', JStr (ne_title env)),
                                       (''tabId'', JStr (''tab-'' @ show_int (ne_now env))),
                                       (''changeType'', JStr ''spa_navigation'')])])])"

text \<open>
  The replacement of \<^verbatim>\<open>history.pushState\<close> and of \<^verbatim>\<open>history.replaceState\<close> (the two
  have the same body). The original function sets the location; \<open>target\<close> is the
  \<^verbatim>\<open>window.location.href\<close> it leaves behind. (A call that the original function
  rejects throws before the comparison: nothing is compared, nothing is sent.)
\<close>

definition history_wrapper :: "nav_env \<Rightarrow> string \<Rightarrow> nav_state \<Rightarrow> nav_state" where
  "history_wrapper env target st =
     (let oldUrl = currentUrl st;
          st1 = st\<lparr>nav_href := target\<rparr>;
          newUrl = nav_href st1
      in if newUrl \<noteq> oldUrl then
           st1\<lparr>currentUrl := newUrl, nav_sent := nav_sent st1 @ notifyUrlChange env newUrl oldUrl\<rparr>
         else st1)"

text \<open>The \<^verbatim>\<open>popstate\<close> listener.\<close>

definition popstate_listener :: "nav_env \<Rightarrow> nav_state \<Rightarrow> nav_state" where
  "popstate_listener env st =
     (let oldUrl = currentUrl st;
          newUrl = nav_href st
      in if newUrl \<noteq> oldUrl then
           st\<lparr>currentUrl := newUrl, nav_sent := nav_sent st @ notifyUrlChange env newUrl oldUrl\<rparr>
         else st)"

text \<open>The callback of \<^verbatim>\<open>setInterval(..., 1000)\<close>.\<close>

definition poll_tick :: "nav_env \<Rightarrow> nav_state \<Rightarrow> nav_state" where
  "poll_tick env st =
     (let newUrl = nav_href st
      in if newUrl \<noteq> currentUrl st then
           (let oldUrl = currentUrl st
            in st\<lparr>currentUrl := newUrl, nav_sent := nav_sent st @ notifyUrlChange env newUrl oldUrl\<rparr>)
         else st)"

text \<open>
  The title observer: on a mutation of the \<^verbatim>\<open>TITLE\<close> element it compares the title with the
  one it keeps, and a new title schedules the check of the URL 100 ms later
  (\<open>title_settle_check\<close>).
\<close>

definition title_changed :: "string \<Rightarrow> string \<Rightarrow> bool" where
  "title_changed currentTitle newTitle = (newTitle \<noteq> currentTitle)"

definition title_settle_check :: "nav_env \<Rightarrow> nav_state \<Rightarrow> nav_state" where
  "title_settle_check env st =
     (let newUrl = nav_href st
      in if newUrl \<noteq> currentUrl st then
           (let oldUrl = currentUrl st
            in st\<lparr>currentUrl := newUrl, nav_sent := nav_sent st @ notifyUrlChange env newUrl oldUrl\<rparr>)
         else st)"

text \<open>The four signals, and a run of them in the order they fire.\<close>

datatype signal =
    PushState string
  | ReplaceState string
  | Popstate
  | Poll
  | TitleSettle

fun signal_step :: "nav_env \<times> signal \<Rightarrow> nav_state \<Rightarrow> nav_state" where
  "signal_step (env, PushState target) st = history_wrapper env target st"
| "signal_step (env, ReplaceState target) st = history_wrapper env target st"
| "signal_step (env, Popstate) st = popstate_listener env st"
| "signal_step (env, Poll) st = poll_tick env st"
| "signal_step (env, TitleSettle) st = title_settle_check env st"

fun run_signals :: "(nav_env \<times> signal) list \<Rightarrow> nav_state \<Rightarrow> nav_state" where
  "run_signals [] st = st"
| "run_signals (s # ss) st = run_signals ss (signal_step s st)"

text \<open>
  A signal belongs to the navigation to \<open>b\<close> when the location it sees is \<open>b\<close>: a history
  call that leaves the location at \<open>b\<close>, or one of the three checks, which read the location.
\<close>

fun lands_on :: "string \<Rightarrow> signal \<Rightarrow> bool" where
  "lands_on b (PushState target) = (target = b)"
| "lands_on b (ReplaceState target) = (target = b)"
| "lands_on b s = True"

fun is_history_call :: "signal \<Rightarrow> bool" where
  "is_history_call (PushState target) = True"
| "is_history_call (ReplaceState target) = True"
| "is_history_call s = False"

text \<open>The \<^verbatim>\<open>URL_CHANGED\<close> notifications among the messages sent, as (new, old) pairs.\<close>

fun url_changes :: "out_msg list \<Rightarrow> (jsval \<times> jsval) list" where
  "url_changes [] = []"
| "url_changes (RuntimeSend m # ms) =
     (if get_prop m ''action'' = JStr ''URL_CHANGED''
      then (get_prop m ''newUrl'', get_prop m ''oldUrl'') # url_changes ms
      else url_changes ms)"
| "url_changes (IframePost i origin m # ms) = url_changes ms"

text \<open>An environment, for running the definitions on examples.\<close>

definition sample_nav_env :: nav_env where
  "sample_nav_env =
     \<lparr>ne_title = ''Cart'', ne_iframe = None, ne_trusted = ''https://panel.example'',
      ne_now = 1000\<rparr>"

section \<open>The panel state and its persistence\<close>

text \<open>
  \<^verbatim>\<open>chrome.storage.local\<close> maps keys to values. \<^verbatim>\<open>set(items)\<close> writes the keys of \<open>items\<close>
  and leaves every other key as it is; \<^verbatim>\<open>get(keys)\<close> gives an object with those of the keys
  that are stored.
\<close>

type_synonym storage = "string \<rightharpoonup> jsval"

definition storage_set :: "storage \<Rightarrow> (string \<times> jsval) list \<Rightarrow> storage" where
  "storage_set store items = store ++ map_of items"

definition storage_get :: "storage \<Rightarrow> string list \<Rightarrow> jsval" where
  "storage_get store keys =
     JObj (concat (map (\<lambda>k. case store k of Some v \<Rightarrow> [(k, v)] | None \<Rightarrow> []) keys))"

text \<open>\<^verbatim>\<open>saveSidebarState(isOpen)\<close>, at the location \<open>href\<close> and the clock reading \<open>now\<close>.\<close>

definition saveSidebarState :: "bool \<Rightarrow> string \<Rightarrow> int \<Rightarrow> storage \<Rightarrow> storage" where
  "saveSidebarState isOpen href now store =
     storage_set store
       [(''sidebarOpen'', JBool isOpen),
        (''sidebarUrl'', JStr href),
        (''lastStateChange'', JNum now)]"


definition wasRecentlyChanged :: "(jsval \<Rightarrow> int option) \<Rightarrow> jsval \<Rightarrow> int option \<Rightarrow> jsval" where
  "wasRecentlyChanged coerce lastStateChange threshold =
     (if \<not> truthy lastStateChange then lastStateChange
      else JBool (case (js_number coerce lastStateChange, threshold) of
                    (Some t, Some th) \<Rightarrow> t > th
                  | _ \<Rightarrow> False))"





text \<open>
  The background script's \<^verbatim>\<open>chrome.tabs.onUpdated\<close> listener, for a change with
  \<^verbatim>\<open>status === 'complete'\<close>: the storage it leaves, and whether it sends
  \<^verbatim>\<open>checkSidebarState\<close> to the tab.
\<close>

definition background_tab_complete ::
    "(jsval \<Rightarrow> int option) \<Rightarrow> int \<Rightarrow> storage \<Rightarrow> storage \<times> bool" where
  "background_tab_complete coerce now store =
     (let result = storage_get store [''sidebarOpen'', ''lastStateChange''];
          fiveMinutesAgo = Some (now - 5 * 60 * 1000);
          recent = wasRecentlyChanged coerce (get_prop result ''lastStateChange'') fiveMinutesAgo
      in if get_prop result ''sidebarOpen'' = JBool True \<and> truthy recent then (store, True)
         else if get_prop result ''sidebarOpen'' = JBool True \<and> \<not> truthy recent then
           (storage_set store [(''sidebarOpen'', JBool False)], False)
         else (store, False))"

text \<open>A stored panel state, for running the definitions on examples.\<close>

definition sample_storage :: "bool \<Rightarrow> int \<Rightarrow> storage" where
  "sample_storage isOpen t =
     [''sidebarOpen'' \<mapsto> JBool isOpen,
      ''sidebarUrl'' \<mapsto> JStr ''https://shop.example/cart'',
      ''lastStateChange'' \<mapsto> JNum t]"

section \<open>The web component injector\<close>

text \<open>
  The document is a tree of elements (text is left out): a tag name, the attributes, the
  children. Tag names stand in their canonical lower-case form, in which the browser
  compares them. Selectors stand in parsed form and look at one element: a type selector, an
  id selector, or a type with an attribute value, as in \<^verbatim>\<open>script[src="..."]\<close>; selectors
  that look at an element's surroundings are outside the model.
\<close>

datatype node = Node (tag: string) (attrs: "(string \<times> string) list") (kids: "node list")

datatype selector = ByTag string | ById string | ByAttr string string string

fun matches :: "selector \<Rightarrow> node \<Rightarrow> bool" where
  "matches (ByTag t) n = (tag n = t)"
| "matches (ById i) n = (map_of (attrs n) ''id'' = Some i)"
| "matches (ByAttr t a v) n = (tag n = t \<and> map_of (attrs n) a = Some v)"

text \<open>An element and the elements under it, in document order.\<close>

fun all_nodes :: "node \<Rightarrow> node list" where
  "all_nodes (Node t a ks) = Node t a ks # concat (map all_nodes ks)"

definition descendants :: "node \<Rightarrow> node list" where
  "descendants n = concat (map all_nodes (kids n))"

text \<open>
  \<^verbatim>\<open>document.querySelector\<close> (the first match in the document, the root element included)
  and \<^verbatim>\<open>element.querySelector\<close> (the first match under the element).
\<close>

definition doc_query :: "selector \<Rightarrow> node \<Rightarrow> node option" where
  "doc_query s d = find (matches s) (all_nodes d)"

definition el_query :: "selector \<Rightarrow> node \<Rightarrow> node option" where
  "el_query s n = find (matches s) (descendants n)"

text \<open>
  The parent of the first element under \<open>par\<close> that satisfies \<open>P\<close>, the children of
  \<open>par\<close> being \<open>ks\<close>.
\<close>

fun parent_in :: "(node \<Rightarrow> bool) \<Rightarrow> node \<Rightarrow> node list \<Rightarrow> node option" where
  "parent_in P par [] = None"
| "parent_in P par (Node t a cs # ks) =
     (if P (Node t a cs) then Some par
      else (case parent_in P (Node t a cs) cs of
              Some q \<Rightarrow> Some q
            | None \<Rightarrow> parent_in P par ks))"

text \<open>
  The document after a change \<open>f\<close> of the first element that satisfies \<open>P\<close>: the element
  \<^verbatim>\<open>querySelector\<close> returned is changed in place.
\<close>

fun upd_first :: "(node \<Rightarrow> bool) \<Rightarrow> (node \<Rightarrow> node) \<Rightarrow> node \<Rightarrow> node"
  and upd_first_list :: "(node \<Rightarrow> bool) \<Rightarrow> (node \<Rightarrow> node) \<Rightarrow> node list \<Rightarrow> node list" where
  "upd_first P f (Node t a ks) =
     (if P (Node t a ks) then f (Node t a ks) else Node t a (upd_first_list P f ks))"
| "upd_first_list P f [] = []"
| "upd_first_list P f (k # ks) =
     (if list_ex P (all_nodes k) then upd_first P f k # ks else k # upd_first_list P f ks)"

text \<open>\<^verbatim>\<open>n.appendChild(c)\<close> and \<^verbatim>\<open>n.insertBefore(c, n.firstChild)\<close>.\<close>

definition append_kid :: "node \<Rightarrow> node \<Rightarrow> node" where
  "append_kid c n = Node (tag n) (attrs n) (kids n @ [c])"

definition prepend_kid :: "node \<Rightarrow> node \<Rightarrow> node" where
  "prepend_kid c n = Node (tag n) (attrs n) (c # kids n)"

text \<open>
  \<^verbatim>\<open>customElements\<close>: not there, or there with the names that are defined. A request, with
  the fields \<^verbatim>\<open>injectWebComponent\<close> reads; an empty string stands for a field that is
  missing or falsy, \<open>None\<close> for no selector. The state: the document, and the retries
  that \<^verbatim>\<open>setTimeout(createCustomElement, 500)\<close> has scheduled.
\<close>

datatype registry = Unavailable | Registered "string list"

record inj_request =
  rq_name :: string
  rq_src :: string
  rq_selector :: "selector option"
  rq_placement :: string

record inj_state =
  is_doc :: node
  is_timers :: "inj_request list"

text \<open>The \<^verbatim>\<open>script\<close> element the injector creates, and the custom element around it.\<close>

definition script_node :: "string \<Rightarrow> node" where
  "script_node src = Node ''script'' [(''type'', ''module''), (''src'', src)] []"

definition custom_node :: "string \<Rightarrow> string \<Rightarrow> node" where
  "custom_node name src = Node name [] [script_node src]"

text \<open>
  \<^verbatim>\<open>document.body\<close>: the first \<^verbatim>\<open>body\<close> or \<^verbatim>\<open>frameset\<close> child of the \<^verbatim>\<open>html\<close> element, or
  \<^verbatim>\<open>null\<close>.
\<close>

definition is_body :: "node \<Rightarrow> bool" where
  "is_body k = (tag k = ''body'' \<or> tag k = ''frameset'')"

definition doc_body :: "node \<Rightarrow> node option" where
  "doc_body d = (if tag d = ''html'' then find is_body (kids d) else None)"

fun upd_kid :: "(node \<Rightarrow> bool) \<Rightarrow> (node \<Rightarrow> node) \<Rightarrow> node list \<Rightarrow> node list" where
  "upd_kid P f [] = []"
| "upd_kid P f (k # ks) = (if P k then f k # ks else k # upd_kid P f ks)"

definition upd_body :: "(node \<Rightarrow> node) \<Rightarrow> node \<Rightarrow> node" where
  "upd_body f d = Node (tag d) (attrs d) (upd_kid is_body f (kids d))"

text \<open>
  \<^verbatim>\<open>target.parentNode && target.parentNode.querySelector(name)\<close>, the target being the first
  match of \<open>s\<close>: the parent of the root element is the document.
\<close>

definition target_parent_has :: "string \<Rightarrow> selector \<Rightarrow> node \<Rightarrow> bool" where
  "target_parent_has name s d =
     (if matches s d then doc_query (ByTag name) d \<noteq> None
      else (case parent_in (matches s) d (kids d) of
              Some par \<Rightarrow> el_query (ByTag name) par \<noteq> None
            | None \<Rightarrow> False))"

text \<open>
  The test at the head of \<^verbatim>\<open>createCustomElement\<close>: the element is created when there is no
  registry or when \<^verbatim>\<open>customElements.get(name)\<close> is there.
\<close>

definition registered :: "registry \<Rightarrow> string \<Rightarrow> bool" where
  "registered reg name =
     (case reg of Unavailable \<Rightarrow> True | Registered names \<Rightarrow> name \<in> set names)"

text \<open>
  The inner function \<^verbatim>\<open>createCustomElement\<close>. Without a body to fall back on,
  \<^verbatim>\<open>document.body.querySelector\<close> throws. The name is taken to be one that
  \<^verbatim>\<open>document.createElement\<close> accepts.
\<close>

definition createCustomElement :: "registry \<Rightarrow> inj_request \<Rightarrow> inj_state \<Rightarrow> error + inj_state" where
  "createCustomElement reg rq st =
     (let name = rq_name rq;
          scriptSrc = rq_src rq;
          placement = (if rq_placement rq = [] then ''append'' else rq_placement rq);
          d = is_doc st
      in if \<not> registered reg name then Inr (st\<lparr>is_timers := is_timers st @ [rq]\<rparr>)
         else
           (case (case rq_selector rq of None \<Rightarrow> None
                  | Some s \<Rightarrow> (case doc_query s d of None \<Rightarrow> None | Some target \<Rightarrow> Some (s, target))) of
              None \<Rightarrow>
                (case doc_body d of
                   None \<Rightarrow> Inl TypeError
                 | Some body \<Rightarrow>
                     if el_query (ByTag name) body = None
                     then Inr (st\<lparr>is_doc := upd_body (append_kid (custom_node name scriptSrc)) d\<rparr>)
                     else Inr st)
            | Some (s, target) \<Rightarrow>
                if el_query (ByTag name) target \<noteq> None \<or> target_parent_has name s d then Inr st
                else if placement = ''replace'' then
                  Inr (st\<lparr>is_doc := upd_first (matches s) (\<lambda>n. custom_node name scriptSrc) d\<rparr>)
                else if placement = ''prepend'' then
                  Inr (st\<lparr>is_doc := upd_first (matches s) (prepend_kid (custom_node name scriptSrc)) d\<rparr>)
                else
                  Inr (st\<lparr>is_doc := upd_first (matches s) (append_kid (custom_node name scriptSrc)) d\<rparr>)))"

text \<open>\<^verbatim>\<open>injectWebComponent(request)\<close>.\<close>

definition injectWebComponent :: "registry \<Rightarrow> inj_request \<Rightarrow> inj_state \<Rightarrow> error + inj_state" where
  "injectWebComponent reg rq st =
     (let name = rq_name rq;
          scriptSrc = rq_src rq;
          d = is_doc st
      in if scriptSrc = [] then Inr st
         else if name = [] then Inr st
         else
           (let existingScript = doc_query (ByAttr ''script'' ''src'' scriptSrc) d;
                existingCustomEl = doc_query (ByTag name) d
            in if existingScript \<noteq> None \<or> existingCustomEl \<noteq> None then
                 (case existingCustomEl of
                    Some e \<Rightarrow>
                      if el_query (ByAttr ''script'' ''src'' scriptSrc) e = None
                      then Inr (st\<lparr>is_doc := upd_first (matches (ByTag name))
                                               (append_kid (script_node scriptSrc)) d\<rparr>)
                      else Inr st
                  | None \<Rightarrow> Inr st)
               else createCustomElement reg rq st))"

text \<open>The first scheduled retry fires: \<^verbatim>\<open>createCustomElement\<close> runs again.\<close>

definition fire_retry :: "registry \<Rightarrow> inj_state \<Rightarrow> error + inj_state" where
  "fire_retry reg st =
     (case is_timers st of
        [] \<Rightarrow> Inr st
      | rq # rest \<Rightarrow> createCustomElement reg rq (st\<lparr>is_timers := rest\<rparr>))"

text \<open>The number of elements of a document that a selector matches.\<close>

definition count_matching :: "selector \<Rightarrow> node \<Rightarrow> nat" where
  "count_matching s d = length (filter (matches s) (all_nodes d))"

text \<open>A predicate on elements that looks at the tag name and the attributes only.\<close>

definition shallow :: "(node \<Rightarrow> bool) \<Rightarrow> bool" where
  "shallow P = (\<forall>t a ks ks'. P (Node t a ks) = P (Node t a ks'))"




section \<open>Properties of the origin check\<close>

lemma getConfig_unloaded: "getConfig JNull path fallback = fallback"
  by (simp add: getConfig_def)

lemma split_sidebar_iframeSrc: "split_dot ''sidebar.iframeSrc'' = [''sidebar'', ''iframeSrc'']"
  by simp

lemma sample_trusted_origin:
  "getTrustedOrigin sample_url_origin sample_config = ''https://panel.example''"
  by (simp add: getTrustedOrigin_def getConfig_def sample_config_def sample_url_origin_def)


lemma content_listener_rejects_other_origin:
  "ev_origin ev \<noteq> getTrustedOrigin url_origin cfg
     \<Longrightarrow> content_message_listener url_origin cfg ev = None"
  by (simp add: content_message_listener_def Let_def)

lemma sidebar_listeners_ignore_origin:
  "sidebar_message_listeners has_tab (ev\<lparr>ev_origin := origin\<rparr>)
     = sidebar_message_listeners has_tab ev"
  by (simp add: sidebar_message_listeners_def)

text \<open>
  Claim C2, at the sidebar script. A message from \<^verbatim>\<open>https://evil.example\<close> whose type is
  \<^verbatim>\<open>manipulate-dom\<close> is not handled by the content script, whose trusted origin is another
  one; the sidebar script's listener for that type, which never reads \<^verbatim>\<open>event.origin\<close>,
  relays it to the active tab as a \<^verbatim>\<open>manipulateDom\<close> request.
\<close>

theorem sidebar_listener_dispatches_untrusted_origin:
  "sidebar_message_listeners True
     \<lparr>ev_origin = ''https://evil.example'',
      ev_data = JObj [(''type'', JStr ''manipulate-dom''), (''selector'', JStr ''#price''),
                      (''action'', JStr ''setText''), (''value'', JStr ''0'')]\<rparr>
     = [TabsSend (JObj [(''type'', JStr ''manipulateDom''), (''selector'', JStr ''#price''),
                        (''action'', JStr ''setText''), (''value'', JStr ''0'')])]
   \<and> content_message_listener sample_url_origin sample_config
     \<lparr>ev_origin = ''https://evil.example'',
      ev_data = JObj [(''type'', JStr ''manipulate-dom''), (''selector'', JStr ''#price''),
                      (''action'', JStr ''setText''), (''value'', JStr ''0'')]\<rparr>
     = None"
  by (simp add: sidebar_message_listeners_def content_message_listener_def
        sample_trusted_origin)

theorem sidebar_listener_dispatches_untrusted_origin_witness:
  "sidebar_message_listeners True
     \<lparr>ev_origin = ''https://evil.example'',
      ev_data = JObj [(''type'', JStr ''manipulate-dom''), (''selector'', JStr ''#price''),
                      (''action'', JStr ''setText''), (''value'', JStr ''0'')]\<rparr> \<noteq> []"
  using sidebar_listener_dispatches_untrusted_origin by simp




lemma serialize_origin_not_empty: "serialize_origin sender \<noteq> []"
  by (cases sender) simp_all

text \<open>
  Claim C10. \<^verbatim>\<open>extensionConfig\<close> starts as \<^verbatim>\<open>null\<close> and stays so until
  \<^verbatim>\<open>loadExtensionConfig\<close> has assigned it. With it, \<^verbatim>\<open>getTrustedOrigin\<close> returns the empty
  string (\<^verbatim>\<open>new URL(null)\<close> throws), and the content script's listener returns without
  calling a handler for every message posted from another frame, whatever its type, its
  data and the origin of its sender, the panel's own included; so it does for every event
  whose origin is not the empty string.
\<close>

theorem no_dispatch_before_config_load:
  assumes "url_origin JNull = None"
  shows "getTrustedOrigin url_origin initial_extensionConfig = []
       \<and> content_message_listener url_origin initial_extensionConfig (posted_message sender d) = None
       \<and> (ev_origin ev \<noteq> [] \<longrightarrow>
            content_message_listener url_origin initial_extensionConfig ev = None)"
proof -
  have t: "getTrustedOrigin url_origin initial_extensionConfig = []"
    using assms by (simp add: initial_extensionConfig_def getTrustedOrigin_def getConfig_def)
  have "content_message_listener url_origin initial_extensionConfig e = None"
    if "ev_origin e \<noteq> []" for e
    using that unfolding content_message_listener_def Let_def t by simp
  with t serialize_origin_not_empty show ?thesis
    by (simp add: posted_message_def)
qed

theorem no_dispatch_before_config_load_witness:
  "sample_url_origin JNull = None
   \<and> getTrustedOrigin sample_url_origin initial_extensionConfig = []
   \<and> serialize_origin (TupleOrigin ''https'' ''panel.example'' None) = ''https://panel.example''
   \<and> content_message_listener sample_url_origin initial_extensionConfig
        (posted_message (TupleOrigin ''https'' ''panel.example'' None)
           (JObj [(''type'', JStr ''observe-dom-value''), (''selector'', JStr ''#price''),
                  (''watchId'', JStr ''w1'')])) = None
   \<and> content_message_listener sample_url_origin (loadExtensionConfig (Some sample_config))
        (posted_message (TupleOrigin ''https'' ''panel.example'' None)
           (JObj [(''type'', JStr ''observe-dom-value''), (''selector'', JStr ''#price''),
                  (''watchId'', JStr ''w1'')]))
      = Some (CallDomObserver (JStr ''#price'') JUndef JUndef (JStr ''w1''))"
proof -
  have n: "sample_url_origin JNull = None"
    by (simp add: sample_url_origin_def)
  have l: "content_message_listener sample_url_origin (loadExtensionConfig (Some sample_config))
        (posted_message (TupleOrigin ''https'' ''panel.example'' None)
           (JObj [(''type'', JStr ''observe-dom-value''), (''selector'', JStr ''#price''),
                  (''watchId'', JStr ''w1'')]))
      = Some (CallDomObserver (JStr ''#price'') JUndef JUndef (JStr ''w1''))"
    by (simp add: content_message_listener_def loadExtensionConfig_def sample_trusted_origin
          posted_message_def)
  from no_dispatch_before_config_load [of sample_url_origin, OF n] n l
  show ?thesis by simp
qed

section \<open>Properties of the navigation detector\<close>

lemma url_changes_append: "url_changes (xs @ ys) = url_changes xs @ url_changes ys"
  by (induction xs rule: url_changes.induct) auto

lemma url_changes_notify: "url_changes (notifyUrlChange env b a) = [(JStr b, JStr a)]"
  by (simp add: notifyUrlChange_def split: option.split)

lemma signal_step_settled:
  assumes "currentUrl st = nav_href st" and "lands_on (nav_href st) s"
  shows "signal_step (env, s) st = st"
  using assms
  by (cases s)
     (simp_all add: history_wrapper_def popstate_listener_def poll_tick_def
        title_settle_check_def Let_def)

lemma run_signals_settled:
  assumes "currentUrl st = nav_href st" and "\<forall>x \<in> set sigs. lands_on (nav_href st) (snd x)"
  shows "run_signals sigs st = st"
  using assms
proof (induction sigs)
  case Nil
  then show ?case by simp
next
  case (Cons x sigs)
  obtain env s where x: "x = (env, s)" by (cases x)
  from Cons.prems have "signal_step x st = st"
    unfolding x by (simp add: signal_step_settled)
  with Cons show ?case by simp
qed

lemma signal_step_first:
  assumes "currentUrl st = a" and "a \<noteq> b" and "lands_on b s"
    and "nav_href st = b \<or> is_history_call s"
  shows "signal_step (env, s) st =
           st\<lparr>currentUrl := b, nav_href := b,
              nav_sent := nav_sent st @ notifyUrlChange env b a\<rparr>"
  using assms
  by (cases s)
     (auto simp add: history_wrapper_def popstate_listener_def poll_tick_def
        title_settle_check_def Let_def)

text \<open>
  Claim C1. \<^verbatim>\<open>currentUrl\<close> is \<open>a\<close> and the page navigates to another location \<open>b\<close>. Any
  signals then fire, at least one, in any order and each any number of times: history calls
  that leave the location at \<open>b\<close>, \<^verbatim>\<open>popstate\<close>, polling ticks, settle checks of the title
  observer; the first of them sees the location \<open>b\<close> (the location is \<open>b\<close> already, or the
  signal is the history call that sets it). After the run \<^verbatim>\<open>currentUrl\<close> is \<open>b\<close>, and what
  was sent is what had been sent before followed by the messages of one
  \<^verbatim>\<open>notifyUrlChange(b, a)\<close>, made by the first signal: one \<^verbatim>\<open>URL_CHANGED\<close> notification, and
  nothing from the signals that ran after \<^verbatim>\<open>currentUrl\<close> was updated.
\<close>

theorem one_notification_per_navigation:
  assumes "currentUrl st = a" and "a \<noteq> b" and "sigs \<noteq> []"
    and "\<forall>x \<in> set sigs. lands_on b (snd x)"
    and "nav_href st = b \<or> is_history_call (snd (hd sigs))"
  shows "currentUrl (run_signals sigs st) = b
       \<and> nav_href (run_signals sigs st) = b
       \<and> nav_sent (run_signals sigs st) = nav_sent st @ notifyUrlChange (fst (hd sigs)) b a
       \<and> url_changes (nav_sent (run_signals sigs st))
           = url_changes (nav_sent st) @ [(JStr b, JStr a)]"
proof -
  from assms(3) obtain env s rest where sigs: "sigs = (env, s) # rest"
    by (cases sigs) auto
  define st1 where "st1 = st\<lparr>currentUrl := b, nav_href := b,
                              nav_sent := nav_sent st @ notifyUrlChange env b a\<rparr>"
  have first: "signal_step (env, s) st = st1"
    unfolding st1_def using assms sigs by (intro signal_step_first) auto
  have "run_signals rest st1 = st1"
    using assms(4) sigs by (intro run_signals_settled) (auto simp: st1_def)
  with first have "run_signals sigs st = st1" by (simp add: sigs)
  then show ?thesis
    by (simp add: st1_def sigs url_changes_append url_changes_notify)
qed

theorem one_notification_per_navigation_witness:
  "url_changes (nav_sent (run_signals
       [(sample_nav_env, PushState ''https://shop.example/cart''),
        (sample_nav_env, TitleSettle), (sample_nav_env, Poll), (sample_nav_env, Popstate)]
       \<lparr>currentUrl = ''https://shop.example/'', nav_href = ''https://shop.example/'',
        nav_sent = []\<rparr>))
     = [(JStr ''https://shop.example/cart'', JStr ''https://shop.example/'')]
   \<and> currentUrl (run_signals
       [(sample_nav_env, PushState ''https://shop.example/cart''),
        (sample_nav_env, TitleSettle), (sample_nav_env, Poll), (sample_nav_env, Popstate)]
       \<lparr>currentUrl = ''https://shop.example/'', nav_href = ''https://shop.example/'',
        nav_sent = []\<rparr>) = ''https://shop.example/cart''"
proof -
  let ?st = "\<lparr>currentUrl = ''https://shop.example/'', nav_href = ''https://shop.example/'',
             nav_sent = []\<rparr>"
  let ?sigs = "[(sample_nav_env, PushState ''https://shop.example/cart''),
                (sample_nav_env, TitleSettle), (sample_nav_env, Poll), (sample_nav_env, Popstate)]"
  have h1: "currentUrl ?st = ''https://shop.example/''" by simp
  have h2: "''https://shop.example/'' \<noteq> ''https://shop.example/cart''" by simp
  have h3: "?sigs \<noteq> []" by simp
  have h4: "\<forall>x \<in> set ?sigs. lands_on ''https://shop.example/cart'' (snd x)" by simp
  have h5: "nav_href ?st = ''https://shop.example/cart'' \<or> is_history_call (snd (hd ?sigs))"
    by simp
  from one_notification_per_navigation [OF h1 h2 h3 h4 h5]
  show ?thesis by (simp add: url_changes_notify)
qed

section \<open>Properties of the watch manager\<close>

lemma sample_page_simps [simp]:
  "pg_query (sample_page v i) s = (if s = ''#price'' then Match 0 else NoMatch)"
  "el_props (pg_elems (sample_page v i) n) = [''value'' \<mapsto> JStr v]"
  "el_attrs (pg_elems (sample_page v i) n) = Map.empty"
  "pg_iframe (sample_page v i) = i"
  by (simp_all add: sample_page_def)



lemma on_fire_reaches:
  assumes "reaches_panel b pg"
  shows "snd (on_fire pg tr b) \<noteq> []
           \<longleftrightarrow> read_value (pg_elems pg (b_elem b)) (b_attribute b) \<noteq> b_lastValue b"
    and "reported_values (snd (on_fire pg tr b)) =
           (if read_value (pg_elems pg (b_elem b)) (b_attribute b) \<noteq> b_lastValue b
            then [read_value (pg_elems pg (b_elem b)) (b_attribute b)] else [])"
    and "b_lastValue (fst (on_fire pg tr b)) = read_value (pg_elems pg (b_elem b)) (b_attribute b)"
    and "b_sink (fst (on_fire pg tr b)) = b_sink b"
    and "b_elem (fst (on_fire pg tr b)) = b_elem b"
    and "b_attribute (fst (on_fire pg tr b)) = b_attribute b"
  using assms
  by (auto simp: on_fire_def reaches_panel_def post_to_iframe_def value_changed_msg_def Let_def
           split: sink.splits option.splits)

lemma reported_values_append:
  "reported_values (xs @ ys) = reported_values xs @ reported_values ys"
  by (induction xs rule: reported_values.induct) simp_all

text \<open>
  Over any run of its callback, a binding that has somewhere to report to reports the
  values read, without those equal to the value read just before: the first of them is
  compared with the value read at registration.
\<close>

lemma fire_seq_reports:
  assumes "\<forall>pg \<in> set pgs. reaches_panel b pg"
  shows "reported_values (snd (fire_seq tr b pgs))
           = tl (remdups_adj (b_lastValue b #
                   map (\<lambda>pg. read_value (pg_elems pg (b_elem b)) (b_attribute b)) pgs))"
  using assms
proof (induction pgs arbitrary: b)
  case Nil
  then show ?case by simp
next
  case (Cons pg pgs)
  let ?b' = "fst (on_fire pg tr b)"
  let ?v = "read_value (pg_elems pg (b_elem b)) (b_attribute b)"
  from Cons.prems have r: "reaches_panel b pg" by simp
  have same: "reaches_panel ?b' = reaches_panel b"
    by (rule ext) (simp add: reaches_panel_def on_fire_reaches(4)[OF r])
  from Cons.prems have "\<forall>p \<in> set pgs. reaches_panel ?b' p"
    by (simp add: same)
  from Cons.IH[OF this]
  have ih: "reported_values (snd (fire_seq tr ?b' pgs))
           = tl (remdups_adj (?v #
                   map (\<lambda>pg. read_value (pg_elems pg (b_elem b)) (b_attribute b)) pgs))"
    by (simp add: on_fire_reaches[OF r])
  show ?case
    by (simp add: Let_def reported_values_append ih on_fire_reaches(2)[OF r])
qed








lemma get_dom_info_echoes_requestId:
  "handleGetDomInfo pg tr selector attribute requestId = Inr out \<Longrightarrow> m \<in> set out \<Longrightarrow>
     \<exists>i v. m = IframePost i tr (JObj [(''type'', JStr ''dom-info-result''), (''selector'', selector),
                (''attribute'', attribute), (''value'', v), (''requestId'', requestId)])"
  by (auto simp: handleGetDomInfo_def post_to_iframe_def Let_def
           split: query_result.splits option.splits if_splits)

lemma start_dom_observer_route_keeps_watchId:
  "sidebar_message_listeners True (sample_observe_event ''start-dom-observer'')
     = [TabsSend (JObj [(''type'', JStr ''manipulateDom''), (''action'', JStr ''observeDomValue''),
                        (''selector'', JStr ''#price''), (''attribute'', JStr ''value''),
                        (''eventType'', JStr ''input''), (''watchId'', JStr ''w1'')])]
   \<and> and_then
        (content_runtime_listener (sample_page ''10'' None)
           (JObj [(''type'', JStr ''manipulateDom''), (''action'', JStr ''observeDomValue''),
                  (''selector'', JStr ''#price''), (''attribute'', JStr ''value''),
                  (''eventType'', JStr ''input''), (''watchId'', JStr ''w1'')])
           no_watches)
        (\<lambda>st. Inr (ws_out st))
     = Inr [RuntimeSend (value_changed_msg (JStr ''#price'') (JStr ''value'') (JStr ''10'')
              (JStr ''w1''))]
   \<and> sidebar_relay_value_changed True
        (value_changed_msg (JStr ''#price'') (JStr ''value'') (JStr ''10'') (JStr ''w1''))
      = [value_changed_msg (JStr ''#price'') (JStr ''value'') (JStr ''10'') (JStr ''w1'')]"
  by (simp add: sidebar_message_listeners_def sample_observe_event_def and_then_def
        content_runtime_listener_def handleManipulateDomRequest_def no_watches_def
        sidebar_relay_value_changed_def value_changed_msg_def js_or_def default_eventType_def
        read_value_def Let_def)

text \<open>
  Claim C9, on the sidebar script's route \<^verbatim>\<open>observe-dom-value\<close>. The panel asks for a
  watch with the \<^verbatim>\<open>watchId\<close> \<^verbatim>\<open>w1\<close>. The request the sidebar script sends to the tab has an
  \<^verbatim>\<open>iframeSelector\<close> and no \<^verbatim>\<open>watchId\<close>; the notification the content script sends back
  carries the \<^verbatim>\<open>watchId\<close> \<^verbatim>\<open>undefined\<close>; and the sidebar script's relay, which forwards a
  \<^verbatim>\<open>domValueChanged\<close> only when its \<^verbatim>\<open>watchId\<close> is truthy, posts nothing to the panel.
\<close>

theorem observe_dom_value_route_drops_watchId:
  "sidebar_message_listeners True (sample_observe_event ''observe-dom-value'')
     = [TabsSend (JObj [(''type'', JStr ''manipulateDom''), (''action'', JStr ''observeDomValue''),
                        (''selector'', JStr ''#price''), (''attribute'', JStr ''value''),
                        (''eventType'', JStr ''input''), (''iframeSelector'', JUndef)])]
   \<and> and_then
        (content_runtime_listener (sample_page ''10'' None)
           (JObj [(''type'', JStr ''manipulateDom''), (''action'', JStr ''observeDomValue''),
                  (''selector'', JStr ''#price''), (''attribute'', JStr ''value''),
                  (''eventType'', JStr ''input''), (''iframeSelector'', JUndef)])
           no_watches)
        (\<lambda>st. Inr (ws_out st))
     = Inr [RuntimeSend (value_changed_msg (JStr ''#price'') (JStr ''value'') (JStr ''10'') JUndef)]
   \<and> sidebar_relay_value_changed True
        (value_changed_msg (JStr ''#price'') (JStr ''value'') (JStr ''10'') JUndef) = []"
  by (simp add: sidebar_message_listeners_def sample_observe_event_def and_then_def
        content_runtime_listener_def handleManipulateDomRequest_def no_watches_def
        sidebar_relay_value_changed_def value_changed_msg_def js_or_def default_eventType_def
        read_value_def Let_def)

theorem observe_dom_value_route_drops_watchId_witness:
  "sidebar_relay_value_changed True
     (value_changed_msg (JStr ''#price'') (JStr ''value'') (JStr ''10'') JUndef) = []"
  using observe_dom_value_route_drops_watchId by simp

section \<open>Properties of the panel state\<close>

lemma saveSidebarState_writes_all:
  "saveSidebarState isOpen href now store =
     store(''sidebarOpen'' \<mapsto> JBool isOpen, ''sidebarUrl'' \<mapsto> JStr href,
           ''lastStateChange'' \<mapsto> JNum now)"
  by (rule ext) (simp add: saveSidebarState_def storage_set_def map_add_def)



text \<open>
  Claim C5, at the background script. The stored state is open and ten minutes old when a
  tab completes loading. The background script's reset writes the key \<^verbatim>\<open>sidebarOpen\<close>
  alone: \<^verbatim>\<open>lastStateChange\<close> keeps the old time and \<^verbatim>\<open>sidebarUrl\<close> its old value (or stays
  absent), where \<^verbatim>\<open>saveSidebarState(false)\<close>, which the content script calls for the same
  reset, writes the three keys with the time of the write.
\<close>

theorem background_reset_patches_one_field:
  "fst (background_tab_complete (\<lambda>v. None) 1600000 (sample_storage True 1000000))
     = [''sidebarOpen'' \<mapsto> JBool False,
        ''sidebarUrl'' \<mapsto> JStr ''https://shop.example/cart'',
        ''lastStateChange'' \<mapsto> JNum 1000000]
   \<and> fst (background_tab_complete (\<lambda>v. None) 1600000
            [''sidebarOpen'' \<mapsto> JBool True, ''lastStateChange'' \<mapsto> JNum 1000000])
        ''sidebarUrl'' = None
   \<and> saveSidebarState False ''https://shop.example/cart'' 1600000 (sample_storage True 1000000)
     = [''sidebarOpen'' \<mapsto> JBool False,
        ''sidebarUrl'' \<mapsto> JStr ''https://shop.example/cart'',
        ''lastStateChange'' \<mapsto> JNum 1600000]"
  apply (intro conjI)
    apply (rule ext)
    apply (simp add: background_tab_complete_def sample_storage_def storage_get_def
        storage_set_def wasRecentlyChanged_def js_number_def Let_def map_add_def)
   apply (simp add: background_tab_complete_def storage_get_def
        storage_set_def wasRecentlyChanged_def js_number_def Let_def map_add_def)
  apply (rule ext)
  apply (simp add: saveSidebarState_def sample_storage_def storage_set_def map_add_def)
  done

theorem background_reset_patches_one_field_witness:
  "fst (background_tab_complete (\<lambda>v. None) 1600000 (sample_storage True 1000000))
     ''lastStateChange'' = Some (JNum 1000000)"
  using background_reset_patches_one_field by simp






section \<open>Properties of the injector\<close>

lemma shallow_matches: "shallow (matches s)"
  by (cases s) (simp_all add: shallow_def)

lemma shallowD: "shallow P \<Longrightarrow> P (Node t a ks) = P (Node t a ks')"
  by (simp add: shallow_def)

lemma find_filter: "find P xs = (case filter P xs of [] \<Rightarrow> None | x # rest \<Rightarrow> Some x)"
  by (induction xs) simp_all

lemma find_None_filter: "find P xs = None \<longleftrightarrow> (\<forall>x \<in> set xs. \<not> P x)"
  by (induction xs) simp_all

lemma find_SomeD: "find P xs = Some x \<Longrightarrow> x \<in> set xs \<and> P x"
  by (induction xs) (auto split: if_splits)

lemma all_nodes_self: "n \<in> set (all_nodes n)"
  by (cases n) simp

lemma all_nodes_sub:
  "n \<in> set (all_nodes d) \<Longrightarrow> m \<in> set (all_nodes n) \<Longrightarrow> m \<in> set (all_nodes d)"
proof (induction d rule: all_nodes.induct)
  case (1 t a ks)
  then show ?case by (cases "n = Node t a ks") auto
qed

lemma descendants_sub: "m \<in> set (descendants n) \<Longrightarrow> m \<in> set (all_nodes n)"
  by (cases n) (simp add: descendants_def)

lemma parent_in_sub:
  "parent_in P par ks = Some q \<Longrightarrow> q = par \<or> q \<in> set (concat (map all_nodes ks))"
proof (induction P par ks rule: parent_in.induct)
  case (1 P par)
  then show ?case by simp
next
  case (2 P par t a cs ks)
  then show ?case
    by (auto split: if_splits option.splits)
qed

lemma filter_upd_first:
  "shallow P' \<Longrightarrow>
   (\<forall>n. (\<forall>m \<in> set (all_nodes n). \<not> P' m) \<longrightarrow> filter P' (all_nodes (f n)) = R) \<Longrightarrow>
   (\<forall>m \<in> set (all_nodes d). \<not> P' m) \<Longrightarrow> list_ex S (all_nodes d)
     \<Longrightarrow> filter P' (all_nodes (upd_first S f d)) = R"
  "shallow P' \<Longrightarrow>
   (\<forall>n. (\<forall>m \<in> set (all_nodes n). \<not> P' m) \<longrightarrow> filter P' (all_nodes (f n)) = R) \<Longrightarrow>
   (\<forall>m \<in> set (concat (map all_nodes ks)). \<not> P' m) \<Longrightarrow> list_ex S (concat (map all_nodes ks))
     \<Longrightarrow> filter P' (concat (map all_nodes (upd_first_list S f ks))) = R"
proof (induction S f d and S f ks rule: upd_first_upd_first_list.induct)
  case (1 S f t a ks)
  show ?case
  proof (cases "S (Node t a ks)")
    case True
    then have "upd_first S f (Node t a ks) = f (Node t a ks)" by simp
    with 1(3,4) show ?thesis by (simp only:)
  next
    case False
    from 1(4) have "\<not> P' (Node t a ks)" by simp
    then have root: "\<not> P' (Node t a (upd_first_list S f ks))"
      using shallowD[OF 1(2)] by blast
    from False 1(5) have ex: "list_ex S (concat (map all_nodes ks))" by simp
    from 1(4) have "\<forall>m \<in> set (concat (map all_nodes ks)). \<not> P' m" by simp
    from 1(1)[OF False 1(2,3) this ex] False root show ?thesis by simp
  qed
next
  case (2 S f)
  then show ?case by simp
next
  case (3 S f k ks)
  from 3(5) have k: "\<forall>m \<in> set (all_nodes k). \<not> P' m"
    and ks: "\<forall>m \<in> set (concat (map all_nodes ks)). \<not> P' m" by auto
  show ?case
  proof (cases "list_ex S (all_nodes k)")
    case True
    from 3(1)[OF True 3(3,4) k True] ks True show ?thesis
      by (simp add: filter_empty_conv)
  next
    case False
    from False 3(6) have ex: "list_ex S (concat (map all_nodes ks))" by simp
    from 3(2)[OF False 3(3,4) ks ex] k False show ?thesis
      by (simp add: filter_empty_conv)
  qed
qed

lemma filter_upd_kid:
  assumes f_ok: "\<forall>n. (\<forall>m \<in> set (all_nodes n). \<not> P' m) \<longrightarrow> filter P' (all_nodes (f n)) = R"
  shows "(\<forall>m \<in> set (concat (map all_nodes ks)). \<not> P' m) \<Longrightarrow> find S ks \<noteq> None
           \<Longrightarrow> filter P' (concat (map all_nodes (upd_kid S f ks))) = R"
proof (induction ks)
  case Nil
  then show ?case by simp
next
  case (Cons k ks)
  from Cons.prems(1) have k: "\<forall>m \<in> set (all_nodes k). \<not> P' m"
    and ks: "\<forall>m \<in> set (concat (map all_nodes ks)). \<not> P' m" by auto
  show ?case
  proof (cases "S k")
    case True
    with f_ok k ks show ?thesis by (simp add: filter_empty_conv)
  next
    case False
    with Cons.prems(2) have "find S ks \<noteq> None" by simp
    from Cons.IH[OF ks this] k False show ?thesis by (simp add: filter_empty_conv)
  qed
qed

lemma filter_upd_body:
  assumes "shallow P'"
    and f_ok: "\<forall>n. (\<forall>m \<in> set (all_nodes n). \<not> P' m) \<longrightarrow> filter P' (all_nodes (f n)) = R"
    and clean: "\<forall>m \<in> set (all_nodes d). \<not> P' m"
    and body: "doc_body d \<noteq> None"
  shows "filter P' (all_nodes (upd_body f d)) = R"
proof (cases d)
  case (Node t a ks)
  from clean Node have root: "\<not> P' (Node t a (upd_kid is_body f ks))"
    using shallowD[OF assms(1)] by auto
  from clean Node have ks: "\<forall>m \<in> set (concat (map all_nodes ks)). \<not> P' m" by simp
  from body Node have "find is_body ks \<noteq> None"
    by (simp add: doc_body_def split: if_splits)
  from filter_upd_kid[of P' f R, OF f_ok ks this] root Node show ?thesis
    by (simp add: upd_body_def)
qed


lemma node_eta: "Node (tag n) (attrs n) (kids n) = n"
  by (cases n) simp

lemma filter_append_kid:
  assumes "shallow P'" and "\<forall>m \<in> set (all_nodes n). \<not> P' m"
  shows "filter P' (all_nodes (append_kid c n)) = filter P' (all_nodes c)"
proof (cases n)
  case (Node t a ks)
  with assms(2) have "\<not> P' (Node t a ks)" by simp
  then have "\<not> P' (Node t a (ks @ [c]))" using shallowD[OF assms(1)] by blast
  with assms(2) Node show ?thesis
    by (simp add: append_kid_def filter_empty_conv)
qed

lemma filter_prepend_kid:
  assumes "shallow P'" and "\<forall>m \<in> set (all_nodes n). \<not> P' m"
  shows "filter P' (all_nodes (prepend_kid c n)) = filter P' (all_nodes c)"
proof (cases n)
  case (Node t a ks)
  with assms(2) have "\<not> P' (Node t a ks)" by simp
  then have "\<not> P' (Node t a (c # ks))" using shallowD[OF assms(1)] by blast
  with assms(2) Node show ?thesis
    by (simp add: prepend_kid_def filter_empty_conv)
qed

lemma filter_tag_custom:
  "name \<noteq> ''script'' \<Longrightarrow>
     filter (matches (ByTag name)) (all_nodes (custom_node name src)) = [custom_node name src]"
  by (auto simp: custom_node_def script_node_def)

lemma filter_script_custom:
  "name \<noteq> ''script'' \<Longrightarrow>
     filter (matches (ByAttr ''script'' ''src'' src)) (all_nodes (custom_node name src))
       = [script_node src]"
  by (auto simp: custom_node_def script_node_def)

lemma clean_el_query:
  assumes "\<forall>m \<in> set (all_nodes d). \<not> matches s m" and "n \<in> set (all_nodes d)"
  shows "el_query s n = None"
  using assms all_nodes_sub descendants_sub
  by (auto simp: el_query_def find_None_filter)

lemma clean_target_parent:
  assumes "\<forall>m \<in> set (all_nodes d). \<not> matches (ByTag name) m"
  shows "\<not> target_parent_has name s d"
proof (cases "matches s d")
  case True
  with assms show ?thesis
    by (simp add: target_parent_has_def doc_query_def find_None_filter)
next
  case False
  show ?thesis
  proof (cases "parent_in (matches s) d (kids d)")
    case None
    with False show ?thesis by (simp add: target_parent_has_def)
  next
    case (Some par)
    from parent_in_sub[OF Some] have "par \<in> set (all_nodes d)"
      using all_nodes_self[of d] by (cases d) auto
    from clean_el_query[OF assms this] False Some show ?thesis
      by (simp add: target_parent_has_def)
  qed
qed

lemma create_on_clean_document:
  assumes reg: "registered reg (rq_name rq)"
    and cleanT: "\<forall>m \<in> set (all_nodes (is_doc st)). \<not> matches (ByTag (rq_name rq)) m"
    and cleanQ: "\<forall>m \<in> set (all_nodes (is_doc st)).
                   \<not> matches (ByAttr ''script'' ''src'' (rq_src rq)) m"
  shows "(createCustomElement reg rq st = Inl TypeError
            \<and> \<not> ((\<exists>s. rq_selector rq = Some s \<and> doc_query s (is_doc st) \<noteq> None)
                  \<or> doc_body (is_doc st) \<noteq> None))
       \<or> (\<exists>d1. createCustomElement reg rq st = Inr (st\<lparr>is_doc := d1\<rparr>)
             \<and> filter (matches (ByTag (rq_name rq))) (all_nodes d1)
                 = filter (matches (ByTag (rq_name rq)))
                     (all_nodes (custom_node (rq_name rq) (rq_src rq)))
             \<and> filter (matches (ByAttr ''script'' ''src'' (rq_src rq))) (all_nodes d1)
                 = filter (matches (ByAttr ''script'' ''src'' (rq_src rq)))
                     (all_nodes (custom_node (rq_name rq) (rq_src rq))))"
proof -
  let ?name = "rq_name rq" and ?src = "rq_src rq" and ?d = "is_doc st"
  let ?c = "custom_node ?name ?src"
  let ?T = "matches (ByTag ?name)" and ?Q = "matches (ByAttr ''script'' ''src'' ?src)"
  have ok: "\<forall>n. (\<forall>m \<in> set (all_nodes n). \<not> matches s' m) \<longrightarrow>
                filter (matches s') (all_nodes (f n)) = filter (matches s') (all_nodes ?c)"
    if "f = append_kid ?c \<or> f = prepend_kid ?c \<or> f = (\<lambda>n. ?c)" for f s'
    using that
    by (auto simp: filter_append_kid[OF shallow_matches] filter_prepend_kid[OF shallow_matches])
  show ?thesis
  proof (cases "\<exists>s. rq_selector rq = Some s \<and> doc_query s ?d \<noteq> None")
    case True
    then obtain s target where s: "rq_selector rq = Some s" and t: "doc_query s ?d = Some target"
      by auto
    from t have tin: "target \<in> set (all_nodes ?d)" and ex: "list_ex (matches s) (all_nodes ?d)"
      by (auto simp: doc_query_def list_ex_iff dest: find_SomeD)
    have g1: "el_query (ByTag ?name) target = None"
      by (rule clean_el_query[OF cleanT tin])
    have g2: "\<not> target_parent_has ?name s ?d"
      by (rule clean_target_parent[OF cleanT])
    have upd: "filter ?T (all_nodes (upd_first (matches s) f ?d)) = filter ?T (all_nodes ?c)
             \<and> filter ?Q (all_nodes (upd_first (matches s) f ?d)) = filter ?Q (all_nodes ?c)"
      if "f = append_kid ?c \<or> f = prepend_kid ?c \<or> f = (\<lambda>n. ?c)" for f
      using filter_upd_first(1)[OF shallow_matches ok[OF that] cleanT ex]
            filter_upd_first(1)[OF shallow_matches ok[OF that] cleanQ ex]
      by blast
    from reg s t g1 g2 upd show ?thesis
      by (auto simp: createCustomElement_def Let_def)
  next
    case False
    then have sel: "(case rq_selector rq of None \<Rightarrow> None
                | Some s \<Rightarrow> (case doc_query s ?d of None \<Rightarrow> None
                             | Some target \<Rightarrow> Some (s, target))) = None"
      by (auto split: option.splits)
    show ?thesis
    proof (cases "doc_body ?d")
      case None
      with reg False show ?thesis
        unfolding createCustomElement_def Let_def sel by simp
    next
      case (Some b)
      then have body: "doc_body ?d \<noteq> None" by simp
      from Some have "b \<in> set (kids ?d)"
        by (auto simp: doc_body_def split: if_splits dest: find_SomeD)
      then have bin: "b \<in> set (all_nodes ?d)"
        using all_nodes_self[of b] by (cases "?d") auto
      have g: "el_query (ByTag ?name) b = None"
        by (rule clean_el_query[OF cleanT bin])
      have upd: "filter ?T (all_nodes (upd_body (append_kid ?c) ?d)) = filter ?T (all_nodes ?c)
               \<and> filter ?Q (all_nodes (upd_body (append_kid ?c) ?d)) = filter ?Q (all_nodes ?c)"
        using filter_upd_body[OF shallow_matches ok cleanT body, of "append_kid ?c"]
              filter_upd_body[OF shallow_matches ok cleanQ body, of "append_kid ?c"]
        by blast
      from reg Some g upd show ?thesis
        unfolding createCustomElement_def Let_def sel by auto
    qed
  qed
qed

lemma el_query_custom:
  "el_query (ByAttr ''script'' ''src'' src) (custom_node name src) = Some (script_node src)"
  by (simp add: el_query_def descendants_def custom_node_def script_node_def)

lemma inject_settled:
  assumes "rq_name rq \<noteq> []" and "rq_src rq \<noteq> []"
    and "doc_query (ByTag (rq_name rq)) (is_doc st) = Some e"
    and "el_query (ByAttr ''script'' ''src'' (rq_src rq)) e \<noteq> None"
  shows "injectWebComponent reg rq st = Inr st"
  using assms by (auto simp: injectWebComponent_def Let_def)

lemma doc_query_created:
  assumes "filter (matches (ByTag name)) (all_nodes d1)
             = filter (matches (ByTag name)) (all_nodes (custom_node name src))"
  shows "doc_query (ByTag name) d1 = Some (custom_node name src)"
  using assms by (simp add: doc_query_def find_filter custom_node_def)

lemma find_app:
  "find P (xs @ ys) = (case find P xs of None \<Rightarrow> find P ys | Some x \<Rightarrow> Some x)"
  by (induction xs) simp_all

lemma find_upd_first_same:
  "shallow T \<Longrightarrow> (\<forall>n. T n \<longrightarrow> T (f n)) \<Longrightarrow> find T (all_nodes d) = Some e
     \<Longrightarrow> find T (all_nodes (upd_first T f d)) = Some (f e)"
  "shallow T \<Longrightarrow> (\<forall>n. T n \<longrightarrow> T (f n)) \<Longrightarrow> find T (concat (map all_nodes ks)) = Some e
     \<Longrightarrow> find T (concat (map all_nodes (upd_first_list T f ks))) = Some (f e)"
proof (induction T f d and T f ks rule: upd_first_upd_first_list.induct)
  case (1 T f t a ks)
  show ?case
  proof (cases "T (Node t a ks)")
    case True
    with 1(4) have e: "e = Node t a ks" by simp
    from True have u: "upd_first T f (Node t a ks) = f (Node t a ks)" by simp
    from True 1(3) have "T (f (Node t a ks))" by blast
    then have "find T (all_nodes (f (Node t a ks))) = Some (f (Node t a ks))"
      by (cases "f (Node t a ks)") simp
    with u e show ?thesis by (simp only:)
  next
    case False
    then have root: "\<not> T (Node t a (upd_first_list T f ks))"
      using shallowD[OF 1(2)] by blast
    from False 1(4) have "find T (concat (map all_nodes ks)) = Some e" by simp
    from 1(1)[OF False 1(2,3) this] False root show ?thesis by simp
  qed
next
  case (2 T f)
  then show ?case by simp
next
  case (3 T f k ks)
  show ?case
  proof (cases "list_ex T (all_nodes k)")
    case True
    then obtain x where "find T (all_nodes k) = Some x"
      by (cases "find T (all_nodes k)") (auto simp: find_None_filter list_ex_iff)
    with 3(5) have "find T (all_nodes k) = Some e"
      by (simp add: find_app)
    from 3(1)[OF True 3(3,4) this] True show ?thesis
      by (simp add: find_app)
  next
    case False
    then have n: "find T (all_nodes k) = None"
      by (simp add: find_None_filter list_ex_iff)
    with 3(5) have "find T (concat (map all_nodes ks)) = Some e"
      by (simp add: find_app)
    from 3(2)[OF False 3(3,4) this] False n show ?thesis
      by (simp add: find_app)
  qed
qed

lemma el_query_append_script:
  "el_query (ByAttr ''script'' ''src'' src) (append_kid (script_node src) e) \<noteq> None"
  by (cases e) (simp add: el_query_def descendants_def append_kid_def script_node_def
      find_app split: option.split)

lemma matches_tag_append_kid: "matches (ByTag name) n \<longrightarrow> matches (ByTag name) (append_kid c n)"
  by (simp add: append_kid_def)

text \<open>
  Whatever the document, the registry and the request: when a call has returned, a second
  call with the same request returns too and leaves the document as the first call left it.
\<close>

lemma second_call_keeps_document:
  assumes "injectWebComponent reg rq st = Inr st1"
  shows "\<exists>st2. injectWebComponent reg rq st1 = Inr st2 \<and> is_doc st2 = is_doc st1"
proof -
  let ?name = "rq_name rq" and ?src = "rq_src rq" and ?d = "is_doc st"
  let ?T = "ByTag ?name" and ?Q = "ByAttr ''script'' ''src'' ?src"
  consider (empty) "?src = [] \<or> ?name = []"
    | (bare) e where "?src \<noteq> []" "?name \<noteq> []" "doc_query ?T ?d = Some e" "el_query ?Q e = None"
    | (full) e where "?src \<noteq> []" "?name \<noteq> []" "doc_query ?T ?d = Some e" "el_query ?Q e \<noteq> None"
    | (script) "?src \<noteq> []" "?name \<noteq> []" "doc_query ?T ?d = None" "doc_query ?Q ?d \<noteq> None"
    | (clean) "?src \<noteq> []" "?name \<noteq> []" "doc_query ?T ?d = None" "doc_query ?Q ?d = None"
    by (cases "doc_query ?T ?d") auto
  then show ?thesis
  proof cases
    case empty
    with assms have "st1 = st" by (auto simp: injectWebComponent_def Let_def split: if_splits)
    with assms show ?thesis by simp
  next
    case (bare e)
    with assms have st1: "st1 = st\<lparr>is_doc := upd_first (matches ?T) (append_kid (script_node ?src)) ?d\<rparr>"
      by (auto simp: injectWebComponent_def Let_def)
    from bare(3) have "find (matches ?T) (all_nodes ?d) = Some e"
      by (simp add: doc_query_def)
    from find_upd_first_same(1)[OF shallow_matches _ this, of "append_kid (script_node ?src)"]
    have "doc_query ?T (is_doc st1) = Some (append_kid (script_node ?src) e)"
      unfolding st1 doc_query_def using matches_tag_append_kid by simp
    from inject_settled[OF bare(2,1) this el_query_append_script]
    show ?thesis by simp
  next
    case (full e)
    with assms have "st1 = st" by (auto simp: injectWebComponent_def Let_def)
    with assms show ?thesis by simp
  next
    case script
    with assms have "st1 = st" by (auto simp: injectWebComponent_def Let_def)
    with assms show ?thesis by simp
  next
    case clean
    with assms have c: "createCustomElement reg rq st = Inr st1"
      by (auto simp: injectWebComponent_def Let_def)
    show ?thesis
    proof (cases "registered reg ?name")
      case False
      with c have st1: "st1 = st\<lparr>is_timers := is_timers st @ [rq]\<rparr>"
        by (auto simp: createCustomElement_def Let_def)
      with clean False show ?thesis
        by (auto simp: injectWebComponent_def createCustomElement_def Let_def)
    next
      case True
      from clean(3) have cleanT: "\<forall>m \<in> set (all_nodes ?d). \<not> matches ?T m"
        by (simp add: doc_query_def find_None_filter)
      from clean(4) have cleanQ: "\<forall>m \<in> set (all_nodes ?d). \<not> matches ?Q m"
        by (simp add: doc_query_def find_None_filter)
      from create_on_clean_document[OF True cleanT cleanQ] c
      obtain d1 where st1: "st1 = st\<lparr>is_doc := d1\<rparr>"
        and fT: "filter (matches ?T) (all_nodes d1)
                   = filter (matches ?T) (all_nodes (custom_node ?name ?src))"
        by auto
      from doc_query_created[OF fT] have "doc_query ?T (is_doc st1) = Some (custom_node ?name ?src)"
        by (simp add: st1)
      from inject_settled[OF clean(2,1) this] el_query_custom
      show ?thesis by simp
    qed
  qed
qed



lemma shallow_append_kid: "shallow P \<Longrightarrow> P (append_kid c n) = P n"
proof (cases n)
  case (Node t a ks)
  assume "shallow P"
  from shallowD[OF this, of t a "ks @ [c]" ks] Node show ?thesis
    by (simp add: append_kid_def)
qed

lemma el_query_append_custom:
  "el_query (ByTag name) (append_kid (custom_node name src) n) \<noteq> None"
  by (cases n) (simp add: el_query_def descendants_def append_kid_def custom_node_def
      find_app split: option.split)

text \<open>
  The element type is not registered when the two calls are made: each call schedules a
  retry and creates nothing. Once the type is registered and the two retries have fired,
  the document has one element of the type and one script tag with the src.
\<close>

lemma deferred_injection_creates_once:
  assumes names: "rq_name rq \<noteq> []" "rq_src rq \<noteq> []" "rq_name rq \<noteq> ''script''"
    and unreg: "\<not> registered reg (rq_name rq)"
    and reg': "registered reg' (rq_name rq)"
    and cleanT: "doc_query (ByTag (rq_name rq)) (is_doc st) = None"
    and cleanQ: "doc_query (ByAttr ''script'' ''src'' (rq_src rq)) (is_doc st) = None"
    and sel: "rq_selector rq = Some s" "doc_query s (is_doc st) \<noteq> None"
    and app: "rq_placement rq \<noteq> ''replace''" "rq_placement rq \<noteq> ''prepend''"
    and timers: "is_timers st = []"
  shows "\<exists>st'. and_then (and_then (and_then (injectWebComponent reg rq st)
                   (injectWebComponent reg rq)) (fire_retry reg')) (fire_retry reg') = Inr st'
           \<and> is_timers st' = []
           \<and> count_matching (ByTag (rq_name rq)) (is_doc st') = 1
           \<and> count_matching (ByAttr ''script'' ''src'' (rq_src rq)) (is_doc st') = 1"
proof -
  let ?name = "rq_name rq" and ?src = "rq_src rq" and ?d = "is_doc st"
  let ?c = "custom_node ?name ?src"
  let ?d1 = "upd_first (matches s) (append_kid ?c) ?d"
  have i1: "injectWebComponent reg rq st = Inr (st\<lparr>is_timers := [rq]\<rparr>)"
    using names cleanT cleanQ unreg timers
    by (simp add: injectWebComponent_def createCustomElement_def Let_def)
  have i2: "injectWebComponent reg rq (st\<lparr>is_timers := [rq]\<rparr>) = Inr (st\<lparr>is_timers := [rq, rq]\<rparr>)"
    using names cleanT cleanQ unreg
    by (simp add: injectWebComponent_def createCustomElement_def Let_def)
  from cleanT have cT: "\<forall>m \<in> set (all_nodes ?d). \<not> matches (ByTag ?name) m"
    by (simp add: doc_query_def find_None_filter)
  from cleanQ have cQ: "\<forall>m \<in> set (all_nodes ?d). \<not> matches (ByAttr ''script'' ''src'' ?src) m"
    by (simp add: doc_query_def find_None_filter)
  from sel(2) obtain target where t: "doc_query s ?d = Some target" by auto
  then have tin: "target \<in> set (all_nodes ?d)" and ex: "list_ex (matches s) (all_nodes ?d)"
    by (auto simp: doc_query_def list_ex_iff dest: find_SomeD)
  have g1: "el_query (ByTag ?name) target = None"
    by (rule clean_el_query[OF cT tin])
  have g2: "\<not> target_parent_has ?name s ?d"
    by (rule clean_target_parent[OF cT])
  have r1: "fire_retry reg' (st\<lparr>is_timers := [rq, rq]\<rparr>) = Inr (st\<lparr>is_timers := [rq], is_doc := ?d1\<rparr>)"
    using reg' sel(1) t g1 g2 app
    by (simp add: fire_retry_def createCustomElement_def Let_def)
  from t have "find (matches s) (all_nodes ?d) = Some target" by (simp add: doc_query_def)
  from find_upd_first_same(1)[OF shallow_matches _ this, of "append_kid ?c"]
  have t1: "doc_query s ?d1 = Some (append_kid ?c target)"
    by (simp add: doc_query_def shallow_append_kid[OF shallow_matches])
  have r2: "fire_retry reg' (st\<lparr>is_timers := [rq], is_doc := ?d1\<rparr>) = Inr (st\<lparr>is_timers := [], is_doc := ?d1\<rparr>)"
    using reg' sel(1) t1 el_query_append_custom[of ?name ?src target]
    by (simp add: fire_retry_def createCustomElement_def Let_def)
  have ok: "\<forall>n. (\<forall>m \<in> set (all_nodes n). \<not> matches s' m) \<longrightarrow>
                filter (matches s') (all_nodes (append_kid ?c n)) = filter (matches s') (all_nodes ?c)"
    for s'
    by (simp add: filter_append_kid[OF shallow_matches])
  have n1: "count_matching (ByTag ?name) ?d1 = 1"
    unfolding count_matching_def
      trans[OF filter_upd_first(1)[OF shallow_matches ok cT ex] filter_tag_custom[OF names(3)]]
    by simp
  have n2: "count_matching (ByAttr ''script'' ''src'' ?src) ?d1 = 1"
    unfolding count_matching_def
      trans[OF filter_upd_first(1)[OF shallow_matches ok cQ ex] filter_script_custom[OF names(3)]]
    by simp
  have run: "and_then (and_then (and_then (injectWebComponent reg rq st)
                 (injectWebComponent reg rq)) (fire_retry reg')) (fire_retry reg')
               = Inr (st\<lparr>is_timers := [], is_doc := ?d1\<rparr>)"
    by (simp only: i1 i2 r1 r2 and_then_def sum.case)
  show ?thesis
    unfolding run using n1 n2 by simp
qed






end
